theory Spec2Isabelle
  imports Complex_Main
begin

section \<open>The push/pull toolbar button (app/src/ui/toolbar/push-pull-button.tsx)\<close>

text \<open>
  The component \<open>PushPullButton\<close> renders exactly one \<open>ToolbarButton\<close> element from its
  props. The element is modelled by the record of the attributes the source passes to it;
  \<open>render\<close> is the decision procedure of the component, and the functions before it are
  the helpers and builders it calls, in the order of the source file.
\<close>

subsection \<open>Imported types\<close>

text \<open>
  Modelled from the spec: the types \<open>Progress\<close>, \<open>IAheadBehind\<close> and \<open>TipState\<close>, which
  the source file imports from other modules, with the fields and members that the data
  model of the specification gives them. \<open>render\<close> compares the tip state with \<open>Unborn\<close>
  and \<open>Detached\<close> only, and treats every other member alike.

  \<open>Repository\<close>, \<open>OcticonSymbol\<close>, \<open>ToolbarButtonStyle\<close> and the props of \<open>ToolbarButton\<close>
  are imported as well; they are declared with the fields and members the file uses.
  A \<open>GitHubRepository\<close> is the record of the hosted repository, here its name alone:
  the file reads none of its fields, only whether the repository has one.

  A TypeScript \<open>number\<close> that counts commits is an \<open>int\<close>, the progress fraction a
  \<open>real\<close>, a \<open>Date\<close> the number of milliseconds since the epoch. A string is a list of
  bytes (UTF-8). A type \<open>T | null\<close>, and an optional field \<open>f?: T\<close>, is \<open>T option\<close>.
\<close>

type_synonym Date = int

record Progress =
  title :: string
  description :: "string option"
  "value" :: real

record IAheadBehind =
  ahead :: int
  behind :: int

datatype TipState = Valid | Unborn | Detached

datatype GitHubRepository = GitHubRepository string

record Repository =
  gitHubRepository :: "GitHubRepository option"

datatype OcticonSymbol =
  sync | cloudUpload | arrowDown | arrowUp | arrowSmallUp | arrowSmallDown

datatype ToolbarButtonStyle = Subtitle

subsection \<open>Rendered elements\<close>

text \<open>
  \<open>JSX_span k n s\<close> is \<open><span key=k>{n}<Octicon symbol=s /></span>\<close>, \<open>JSX_div c xs\<close> is
  \<open><div className=c>{xs}</div>\<close>. A description is a plain string or the element
  \<open><span>Last fetched <RelativeTime date=d /></span>\<close>.
\<close>

datatype JSX_span = JSX_span string int OcticonSymbol

datatype JSX_div = JSX_div string "JSX_span list"

datatype Description = Text string | LastFetched Date

text \<open>
  A click handler is one of the three bound methods \<open>this.push\<close>, \<open>this.pull\<close> and
  \<open>this.fetch\<close> of the component, modelled by its name.
\<close>

datatype Handler = this_push | this_pull | this_fetch

record ToolbarButton =
  title :: string
  description :: Description
  progressValue :: "real option"
  className :: string
  icon :: OcticonSymbol
  iconClassName :: "string option"
  style :: ToolbarButtonStyle
  tooltip :: "string option"
  disabled :: "bool option"
  onClick :: "Handler option"
  children :: "JSX_div option"

text \<open>
  A toolbar button is enabled unless its \<open>disabled\<close> attribute is true; a builder that
  does not pass \<open>disabled\<close> leaves it undefined.
\<close>

definition enabled :: "ToolbarButton \<Rightarrow> bool" where
  "enabled b = (disabled b \<noteq> Some True)"

subsection \<open>Failure\<close>

text \<open>
  The source raises nowhere by itself. What can fail at run time is a read through a
  value that is \<open>null\<close>: \<open>const { ahead, behind } = aheadBehind\<close> and \<open>progress.title\<close> throw
  a \<open>TypeError\<close> on \<open>null\<close>. The model keeps every null test of the source as it is
  written, and at every later use of the tested value at its non-null type it reads the
  value with a \<open>case\<close> whose \<open>None\<close> branch is the failure. A \<open>null\<close> that reaches
  a parameter whose declared type excludes it counts as the same failure.
\<close>

datatype error = TypeError

subsection \<open>Helpers\<close>

definition renderAheadBehind ::
  "Progress option \<Rightarrow> IAheadBehind option \<Rightarrow> error + JSX_div option" where
  "renderAheadBehind progress aheadBehind =
    (if aheadBehind = None \<or> progress \<noteq> None then Inr None
     else
       (case aheadBehind of
          None \<Rightarrow> Inl TypeError
        | Some ab \<Rightarrow>
            if ahead ab = 0 \<and> behind ab = 0 then Inr None
            else
              Inr (Some (JSX_div ''ahead-behind''
                ((if ahead ab > 0 then [JSX_span ''ahead'' (ahead ab) arrowSmallUp] else []) @
                 (if behind ab > 0 then [JSX_span ''behind'' (behind ab) arrowSmallDown] else []))))))"

definition renderLastFetched :: "Date option \<Rightarrow> Description" where
  "renderLastFetched lastFetched =
    (case lastFetched of
       Some d \<Rightarrow> LastFetched d
     | None \<Rightarrow> Text ''Never fetched'')"

subsection \<open>Builders\<close>

text \<open>
  The placeholder \<open>'Hang on...'\<close> of the source ends in the single character U+2026, here
  its three UTF-8 bytes. \<open>progress.description || placeholder\<close> is the placeholder when
  the description is undefined or the empty string, as both are falsy.
\<close>

definition hangOn :: string where
  "hangOn = ''Hang on'' @ [CHR 0xE2, CHR 0x80, CHR 0xA6]"

definition progressButton ::
  "Progress \<Rightarrow> bool \<Rightarrow> IAheadBehind option \<Rightarrow> error + ToolbarButton" where
  "progressButton progress networkActionInProgress aheadBehind =
    (case renderAheadBehind (Some progress) aheadBehind of
       Inl e \<Rightarrow> Inl e
     | Inr badge \<Rightarrow>
         Inr \<lparr> title = Progress.title progress,
               description =
                 Text (case Progress.description progress of
                         None \<Rightarrow> hangOn
                       | Some s \<Rightarrow> if s = [] then hangOn else s),
               progressValue = Some (Progress.value progress),
               className = ''push-pull-button'',
               icon = sync,
               iconClassName = Some (if networkActionInProgress then ''spin'' else []),
               style = Subtitle,
               tooltip = Progress.description progress,
               disabled = Some True,
               onClick = None,
               children = badge \<rparr>)"

definition publishRepositoryButton :: "Handler \<Rightarrow> ToolbarButton" where
  "publishRepositoryButton onClick' =
    \<lparr> title = ''Publish repository'',
      description = Text ''Publish this repository to GitHub'',
      progressValue = None,
      className = ''push-pull-button'',
      icon = cloudUpload,
      iconClassName = None,
      style = Subtitle,
      tooltip = None,
      disabled = None,
      onClick = Some onClick',
      children = None \<rparr>"

definition unbornRepositoryButton :: ToolbarButton where
  "unbornRepositoryButton =
    \<lparr> title = ''Publish branch'',
      description = Text ''Cannot publish unborn HEAD'',
      progressValue = None,
      className = ''push-pull-button'',
      icon = cloudUpload,
      iconClassName = None,
      style = Subtitle,
      tooltip = None,
      disabled = Some True,
      onClick = None,
      children = None \<rparr>"

definition detachedHeadButton :: "bool \<Rightarrow> ToolbarButton" where
  "detachedHeadButton rebaseInProgress =
    \<lparr> title = ''Publish branch'',
      description =
        Text (if rebaseInProgress then ''Rebase in progress''
              else ''Cannot publish detached HEAD''),
      progressValue = None,
      className = ''push-pull-button'',
      icon = cloudUpload,
      iconClassName = None,
      style = Subtitle,
      tooltip = None,
      disabled = Some True,
      onClick = None,
      children = None \<rparr>"

definition publishBranchButton :: "bool \<Rightarrow> Handler \<Rightarrow> ToolbarButton" where
  "publishBranchButton isGitHub onClick' =
    \<lparr> title = ''Publish branch'',
      description =
        Text (if isGitHub then ''Publish this branch to GitHub''
              else ''Publish this branch to the remote''),
      progressValue = None,
      className = ''push-pull-button'',
      icon = cloudUpload,
      iconClassName = None,
      style = Subtitle,
      tooltip = None,
      disabled = None,
      onClick = Some onClick',
      children = None \<rparr>"

definition fetchButton ::
  "string \<Rightarrow> IAheadBehind \<Rightarrow> Date option \<Rightarrow> Handler \<Rightarrow> error + ToolbarButton" where
  "fetchButton remoteName aheadBehind lastFetched onClick' =
    (case renderAheadBehind None (Some aheadBehind) of
       Inl e \<Rightarrow> Inl e
     | Inr badge \<Rightarrow>
         Inr \<lparr> title = ''Fetch '' @ remoteName,
               description = renderLastFetched lastFetched,
               progressValue = None,
               className = ''push-pull-button'',
               icon = sync,
               iconClassName = None,
               style = Subtitle,
               tooltip = None,
               disabled = None,
               onClick = Some onClick',
               children = badge \<rparr>)"

text \<open>
  \<open>enablePullWithRebase()\<close> is a feature flag read from another module; the model takes
  its value as the first argument.
\<close>

definition pullButton ::
  "bool \<Rightarrow> string \<Rightarrow> IAheadBehind \<Rightarrow> Date option \<Rightarrow> bool \<Rightarrow> Handler
    \<Rightarrow> error + ToolbarButton" where
  "pullButton enablePullWithRebase remoteName aheadBehind lastFetched pullWithRebase onClick' =
    (case renderAheadBehind None (Some aheadBehind) of
       Inl e \<Rightarrow> Inl e
     | Inr badge \<Rightarrow>
         Inr \<lparr> title =
                 (if pullWithRebase \<and> enablePullWithRebase
                  then ''Pull '' @ remoteName @ '' with rebase''
                  else ''Pull '' @ remoteName),
               description = renderLastFetched lastFetched,
               progressValue = None,
               className = ''push-pull-button'',
               icon = arrowDown,
               iconClassName = None,
               style = Subtitle,
               tooltip = None,
               disabled = None,
               onClick = Some onClick',
               children = badge \<rparr>)"

definition pushButton ::
  "string \<Rightarrow> IAheadBehind \<Rightarrow> Date option \<Rightarrow> Handler \<Rightarrow> error + ToolbarButton" where
  "pushButton remoteName aheadBehind lastFetched onClick' =
    (case renderAheadBehind None (Some aheadBehind) of
       Inl e \<Rightarrow> Inl e
     | Inr badge \<Rightarrow>
         Inr \<lparr> title = ''Push '' @ remoteName,
               description = renderLastFetched lastFetched,
               progressValue = None,
               className = ''push-pull-button'',
               icon = arrowUp,
               iconClassName = None,
               style = Subtitle,
               tooltip = None,
               disabled = None,
               onClick = Some onClick',
               children = badge \<rparr>)"

subsection \<open>Props of the component\<close>

text \<open>
  The fields of \<open>IPushPullButtonProps\<close>. The \<open>dispatcher\<close> is read only by the three click
  handlers, never by \<open>render\<close>, and is left out.
\<close>

record IPushPullButtonProps =
  aheadBehind :: "IAheadBehind option"
  remoteName :: "string option"
  networkActionInProgress :: bool
  lastFetched :: "Date option"
  progress :: "Progress option"
  repository :: Repository
  tipState :: TipState
  pullWithRebase :: "bool option"
  rebaseInProgress :: bool

subsection \<open>The decision procedure\<close>

text \<open>
  \<open>pullWithRebase || false\<close> is \<open>true\<close> only when the optional prop is \<open>true\<close>.
  \<open>!!repository.gitHubRepository\<close> is \<open>true\<close> when the repository has one.
\<close>

definition render :: "bool \<Rightarrow> IPushPullButtonProps \<Rightarrow> error + ToolbarButton" where
  "render enablePullWithRebase props =
    (if progress props \<noteq> None then
       (case progress props of
          None \<Rightarrow> Inl TypeError
        | Some pr \<Rightarrow> progressButton pr (networkActionInProgress props) (aheadBehind props))
     else if remoteName props = None then Inr (publishRepositoryButton this_push)
     else if tipState props = Unborn then Inr unbornRepositoryButton
     else if tipState props = Detached then Inr (detachedHeadButton (rebaseInProgress props))
     else if aheadBehind props = None then
       Inr (publishBranchButton (gitHubRepository (repository props) \<noteq> None) this_push)
     else
       (case (remoteName props, aheadBehind props) of
          (Some remote, Some ab) \<Rightarrow>
            if ahead ab = 0 \<and> behind ab = 0 then
              fetchButton remote ab (lastFetched props) this_fetch
            else if behind ab > 0 then
              pullButton enablePullWithRebase remote ab (lastFetched props)
                (pullWithRebase props = Some True) this_pull
            else pushButton remote ab (lastFetched props) this_push
        | _ \<Rightarrow> Inl TypeError))"

subsection \<open>The status that the props carry\<close>

text \<open>
  The specification calls the input of the selector \<open>SyncStatus\<close>. Its fields, in the
  order of the data model: \<open>aheadBehind\<close>, \<open>remoteName\<close>, \<open>tipState\<close>,
  \<open>rebaseInProgress\<close>, \<open>pullWithRebasePreference\<close>, \<open>networkActionInProgress\<close>,
  \<open>lastFetched\<close>, \<open>progress\<close> and \<open>isGitHubHosted\<close>. The props hold more than that: the
  whole repository object, of which the status keeps only whether it is hosted.
  \<open>syncStatus\<close> reads the status off the props.
\<close>

datatype SyncStatus =
  SyncStatus "IAheadBehind option" "string option" TipState bool "bool option" bool
    "Date option" "Progress option" bool

definition syncStatus :: "IPushPullButtonProps \<Rightarrow> SyncStatus" where
  "syncStatus props =
    SyncStatus (aheadBehind props) (remoteName props) (tipState props)
      (rebaseInProgress props) (pullWithRebase props) (networkActionInProgress props)
      (lastFetched props) (progress props) (gitHubRepository (repository props) \<noteq> None)"

subsection \<open>Sample inputs\<close>

text \<open>
  A published repository on a valid branch that is two commits ahead of and three
  commits behind \<open>origin\<close>, with nothing running; and two progress reports, one with an
  empty description and one with none.
\<close>

definition divergedProps :: IPushPullButtonProps where
  "divergedProps =
    \<lparr> aheadBehind = Some \<lparr> ahead = 2, behind = 3 \<rparr>,
      remoteName = Some ''origin'',
      networkActionInProgress = False,
      lastFetched = None,
      progress = None,
      repository = \<lparr> gitHubRepository = None \<rparr>,
      tipState = Valid,
      pullWithRebase = None,
      rebaseInProgress = False \<rparr>"

definition pushingProgress :: Progress where
  "pushingProgress =
    \<lparr> Progress.title = ''Pushing to origin'', Progress.description = Some [], value = 0 \<rparr>"

definition fetchingProgress :: Progress where
  "fetchingProgress =
    \<lparr> Progress.title = ''Fetching origin'', Progress.description = None, value = 0 \<rparr>"

section \<open>Properties\<close>

subsection \<open>What the helpers and builders return\<close>

lemma renderAheadBehind_suppressed:
  "pr \<noteq> None \<or> abo = None \<Longrightarrow> renderAheadBehind pr abo = Inr None"
  by (auto simp: renderAheadBehind_def)

lemma renderAheadBehind_counts:
  "renderAheadBehind None (Some ab) =
     Inr (if ahead ab = 0 \<and> behind ab = 0 then None
          else Some (JSX_div ''ahead-behind''
            ((if 0 < ahead ab then [JSX_span ''ahead'' (ahead ab) arrowSmallUp] else []) @
             (if 0 < behind ab then [JSX_span ''behind'' (behind ab) arrowSmallDown] else []))))"
  by (simp add: renderAheadBehind_def)

lemma progressButton_returns:
  "progressButton pr n abo =
     Inr \<lparr> title = Progress.title pr,
           description =
             Text (case Progress.description pr of
                     None \<Rightarrow> hangOn
                   | Some s \<Rightarrow> if s = [] then hangOn else s),
           progressValue = Some (Progress.value pr),
           className = ''push-pull-button'',
           icon = sync,
           iconClassName = Some (if n then ''spin'' else []),
           style = Subtitle,
           tooltip = Progress.description pr,
           disabled = Some True,
           onClick = None,
           children = None \<rparr>"
  by (simp add: progressButton_def renderAheadBehind_suppressed)

lemma fetchButton_returns:
  "\<exists>b. fetchButton r ab lf h = Inr b \<and> ToolbarButton.title b = ''Fetch '' @ r
     \<and> ToolbarButton.description b = renderLastFetched lf \<and> icon b = sync
     \<and> disabled b = None \<and> onClick b = Some h
     \<and> renderAheadBehind None (Some ab) = Inr (children b)"
  by (simp add: fetchButton_def renderAheadBehind_counts)

lemma pullButton_returns:
  "\<exists>b. pullButton flag r ab lf w h = Inr b
     \<and> ToolbarButton.title b =
         (if w \<and> flag then ''Pull '' @ r @ '' with rebase'' else ''Pull '' @ r)
     \<and> ToolbarButton.description b = renderLastFetched lf \<and> icon b = arrowDown
     \<and> disabled b = None \<and> onClick b = Some h
     \<and> renderAheadBehind None (Some ab) = Inr (children b)"
  by (simp add: pullButton_def renderAheadBehind_counts)

lemma pushButton_returns:
  "\<exists>b. pushButton r ab lf h = Inr b \<and> ToolbarButton.title b = ''Push '' @ r
     \<and> ToolbarButton.description b = renderLastFetched lf \<and> icon b = arrowUp
     \<and> disabled b = None \<and> onClick b = Some h
     \<and> renderAheadBehind None (Some ab) = Inr (children b)"
  by (simp add: pushButton_def renderAheadBehind_counts)

subsection \<open>The eight rows of the decision procedure\<close>

lemma render_progress:
  "progress props = Some pr \<Longrightarrow>
     render flag props = progressButton pr (networkActionInProgress props) (aheadBehind props)"
  by (simp add: render_def)

lemma render_no_remote:
  "progress props = None \<Longrightarrow> remoteName props = None \<Longrightarrow>
     render flag props = Inr (publishRepositoryButton this_push)"
  by (simp add: render_def)

lemma render_unborn:
  "progress props = None \<Longrightarrow> remoteName props = Some r \<Longrightarrow> tipState props = Unborn \<Longrightarrow>
     render flag props = Inr unbornRepositoryButton"
  by (simp add: render_def)

lemma render_detached:
  "progress props = None \<Longrightarrow> remoteName props = Some r \<Longrightarrow> tipState props = Detached \<Longrightarrow>
     render flag props = Inr (detachedHeadButton (rebaseInProgress props))"
  by (simp add: render_def)

lemma render_no_upstream:
  "progress props = None \<Longrightarrow> remoteName props = Some r \<Longrightarrow> tipState props \<noteq> Unborn \<Longrightarrow>
   tipState props \<noteq> Detached \<Longrightarrow> aheadBehind props = None \<Longrightarrow>
     render flag props =
       Inr (publishBranchButton (gitHubRepository (repository props) \<noteq> None) this_push)"
  by (simp add: render_def)

lemma render_in_sync:
  "progress props = None \<Longrightarrow> remoteName props = Some r \<Longrightarrow> tipState props \<noteq> Unborn \<Longrightarrow>
   tipState props \<noteq> Detached \<Longrightarrow> aheadBehind props = Some ab \<Longrightarrow>
   ahead ab = 0 \<and> behind ab = 0 \<Longrightarrow>
     render flag props = fetchButton r ab (lastFetched props) this_fetch"
  by (simp add: render_def)

lemma render_behind:
  "progress props = None \<Longrightarrow> remoteName props = Some r \<Longrightarrow> tipState props \<noteq> Unborn \<Longrightarrow>
   tipState props \<noteq> Detached \<Longrightarrow> aheadBehind props = Some ab \<Longrightarrow> 0 < behind ab \<Longrightarrow>
     render flag props =
       pullButton flag r ab (lastFetched props) (pullWithRebase props = Some True) this_pull"
  by (auto simp: render_def)

lemma render_otherwise:
  "progress props = None \<Longrightarrow> remoteName props = Some r \<Longrightarrow> tipState props \<noteq> Unborn \<Longrightarrow>
   tipState props \<noteq> Detached \<Longrightarrow> aheadBehind props = Some ab \<Longrightarrow>
   \<not> (ahead ab = 0 \<and> behind ab = 0) \<Longrightarrow> \<not> 0 < behind ab \<Longrightarrow>
     render flag props = pushButton r ab (lastFetched props) this_push"
  by (auto simp: render_def)

text \<open>Every input takes exactly one of the eight rows.\<close>

lemma render_cases [case_names InProgress PublishRepository UnbornHead DetachedHead
    PublishBranch Fetch Pull Push]:
  obtains
    pr where "progress props = Some pr"
  | "progress props = None" and "remoteName props = None"
  | r where "progress props = None" and "remoteName props = Some r"
      and "tipState props = Unborn"
  | r where "progress props = None" and "remoteName props = Some r"
      and "tipState props = Detached"
  | r where "progress props = None" and "remoteName props = Some r"
      and "tipState props \<noteq> Unborn" and "tipState props \<noteq> Detached"
      and "aheadBehind props = None"
  | r ab where "progress props = None" and "remoteName props = Some r"
      and "tipState props \<noteq> Unborn" and "tipState props \<noteq> Detached"
      and "aheadBehind props = Some ab" and "ahead ab = 0 \<and> behind ab = 0"
  | r ab where "progress props = None" and "remoteName props = Some r"
      and "tipState props \<noteq> Unborn" and "tipState props \<noteq> Detached"
      and "aheadBehind props = Some ab" and "0 < behind ab"
  | r ab where "progress props = None" and "remoteName props = Some r"
      and "tipState props \<noteq> Unborn" and "tipState props \<noteq> Detached"
      and "aheadBehind props = Some ab" and "\<not> (ahead ab = 0 \<and> behind ab = 0)"
      and "\<not> 0 < behind ab"
proof (cases "progress props")
  case (Some pr)
  then show ?thesis by (rule that(1))
next
  case noProgress: None
  show ?thesis
  proof (cases "remoteName props")
    case None
    with noProgress show ?thesis by (rule that(2))
  next
    case remote: (Some r)
    consider "tipState props = Unborn" | "tipState props = Detached"
      | "tipState props \<noteq> Unborn" and "tipState props \<noteq> Detached"
      by blast
    then show ?thesis
    proof cases
      case 1
      with noProgress remote show ?thesis by (rule that(3))
    next
      case 2
      with noProgress remote show ?thesis by (rule that(4))
    next
      case valid: 3
      show ?thesis
      proof (cases "aheadBehind props")
        case None
        with noProgress remote valid show ?thesis by (rule that(5))
      next
        case counts: (Some ab)
        consider "ahead ab = 0 \<and> behind ab = 0" | "0 < behind ab"
          | "\<not> (ahead ab = 0 \<and> behind ab = 0)" and "\<not> 0 < behind ab"
          by blast
        then show ?thesis
        proof cases
          case 1
          with noProgress remote valid counts show ?thesis by (rule that(6))
        next
          case 2
          with noProgress remote valid counts show ?thesis by (rule that(7))
        next
          case 3
          with noProgress remote valid counts show ?thesis by (rule that(8))
        qed
      qed
    qed
  qed
qed

subsection \<open>Facts about single builders\<close>

lemma pushButton_icon: "pushButton r ab lf h = Inr b \<Longrightarrow> icon b = arrowUp"
  using pushButton_returns [of r ab lf h] by auto

lemma pullButton_icon: "pullButton flag r ab lf w h = Inr b \<Longrightarrow> icon b = arrowDown"
  using pullButton_returns [of flag r ab lf w h] by auto

lemma fetchButton_icon: "fetchButton r ab lf h = Inr b \<Longrightarrow> icon b = sync"
  using fetchButton_returns [of r ab lf h] by auto

lemma rebase_title_differs: "''Pull '' @ r @ '' with rebase'' \<noteq> ''Pull '' @ r"
  by simp

section \<open>The claims\<close>

subsection \<open>C1: a running operation comes first\<close>

text \<open>
  C1, as amended. Whenever \<open>progress\<close> is present, \<open>render\<close> returns the in-progress
  button, whatever the other props are: it is disabled, has no click handler and no
  ahead/behind badge, its title is the title of the progress report, its icon is \<open>sync\<close>
  and spins exactly when \<open>networkActionInProgress\<close> is true. Its description is the
  description of the progress report when that is present and not empty, and the
  placeholder \<open>hangOn\<close> otherwise; the tooltip carries the description as it was given.
\<close>

theorem C1_progress_first:
  assumes "progress props = Some pr"
  shows "\<exists>b. render flag props = Inr b
    \<and> \<not> enabled b \<and> onClick b = None \<and> children b = None
    \<and> ToolbarButton.title b = Progress.title pr
    \<and> ToolbarButton.description b =
        Text (case Progress.description pr of
                None \<Rightarrow> hangOn
              | Some s \<Rightarrow> if s = [] then hangOn else s)
    \<and> tooltip b = Progress.description pr
    \<and> progressValue b = Some (Progress.value pr)
    \<and> icon b = sync
    \<and> (iconClassName b = Some ''spin'') = networkActionInProgress props"
proof -
  from assms have "render flag props =
      progressButton pr (networkActionInProgress props) (aheadBehind props)"
    by (rule render_progress)
  then show ?thesis
    by (simp add: progressButton_returns enabled_def)
qed

text \<open>The theorem at a push that runs on the diverged branch, with the feature flag on.\<close>

theorem C1_progress_first_witness:
  "progress (divergedProps\<lparr>progress := Some pushingProgress,
      networkActionInProgress := True\<rparr>) = Some pushingProgress
   \<and> (\<exists>b. render True (divergedProps\<lparr>progress := Some pushingProgress,
          networkActionInProgress := True\<rparr>) = Inr b
        \<and> \<not> enabled b \<and> onClick b = None \<and> children b = None
        \<and> ToolbarButton.title b = ''Pushing to origin''
        \<and> ToolbarButton.description b = Text hangOn
        \<and> tooltip b = Some []
        \<and> progressValue b = Some 0
        \<and> icon b = sync
        \<and> iconClassName b = Some ''spin'')"
  using C1_progress_first [of "divergedProps\<lparr>progress := Some pushingProgress,
      networkActionInProgress := True\<rparr>" pushingProgress True]
  by (simp add: pushingProgress_def)

text \<open>
  C1 as it is written says that the description of the progress report is shown
  verbatim. It is not when the report has no description, or an empty one: the button
  then shows the placeholder.
\<close>

theorem C1_description_counterexample:
  "Progress.description fetchingProgress = None
   \<and> render False (divergedProps\<lparr>progress := Some fetchingProgress\<rparr>) =
       Inr \<lparr> title = ''Fetching origin'',
             description = Text (''Hang on'' @ [CHR 0xE2, CHR 0x80, CHR 0xA6]),
             progressValue = Some 0,
             className = ''push-pull-button'',
             icon = sync,
             iconClassName = Some [],
             style = Subtitle,
             tooltip = None,
             disabled = Some True,
             onClick = None,
             children = None \<rparr>
   \<and> Progress.description pushingProgress = Some []
   \<and> render False (divergedProps\<lparr>progress := Some pushingProgress\<rparr>) =
       Inr \<lparr> title = ''Pushing to origin'',
             description = Text (''Hang on'' @ [CHR 0xE2, CHR 0x80, CHR 0xA6]),
             progressValue = Some 0,
             className = ''push-pull-button'',
             icon = sync,
             iconClassName = Some [],
             style = Subtitle,
             tooltip = Some [],
             disabled = Some True,
             onClick = None,
             children = None \<rparr>
   \<and> Text (''Hang on'' @ [CHR 0xE2, CHR 0x80, CHR 0xA6]) \<noteq> Text []"
  by (simp add: render_def progressButton_returns divergedProps_def fetchingProgress_def
      pushingProgress_def hangOn_def)

subsection \<open>C2: behind and ahead means pull\<close>

text \<open>
  C2, as amended. When nothing is running, the repository has a remote, the tip is neither
  unborn nor detached, and the branch is both behind and ahead of its upstream, \<open>render\<close>
  returns the pull button: enabled, bound to \<open>this.pull\<close>, with both counts in the badge.
  And whatever the other props are, a branch that is behind and ahead never gets the push
  button.
\<close>

theorem C2_behind_and_ahead_pulls:
  "(progress props = None \<and> remoteName props = Some remote
      \<and> tipState props \<noteq> Unborn \<and> tipState props \<noteq> Detached
      \<and> aheadBehind props = Some ab \<and> 0 < behind ab \<and> 0 < ahead ab
    \<longrightarrow> render flag props =
          pullButton flag remote ab (lastFetched props) (pullWithRebase props = Some True)
            this_pull
      \<and> (\<exists>b. render flag props = Inr b \<and> enabled b \<and> onClick b = Some this_pull
             \<and> icon b = arrowDown
             \<and> children b = Some (JSX_div ''ahead-behind''
                 [JSX_span ''ahead'' (ahead ab) arrowSmallUp,
                  JSX_span ''behind'' (behind ab) arrowSmallDown])))
   \<and> (aheadBehind props = Some ab \<and> 0 < behind ab \<and> 0 < ahead ab
    \<longrightarrow> render flag props \<noteq> pushButton remote' ab' lf' h')"
proof (intro conjI impI)
  assume path: "progress props = None \<and> remoteName props = Some remote
      \<and> tipState props \<noteq> Unborn \<and> tipState props \<noteq> Detached
      \<and> aheadBehind props = Some ab \<and> 0 < behind ab \<and> 0 < ahead ab"
  then show pull: "render flag props =
      pullButton flag remote ab (lastFetched props) (pullWithRebase props = Some True) this_pull"
    by (simp add: render_behind)
  from path have "renderAheadBehind None (Some ab) =
      Inr (Some (JSX_div ''ahead-behind''
        [JSX_span ''ahead'' (ahead ab) arrowSmallUp,
         JSX_span ''behind'' (behind ab) arrowSmallDown]))"
    by (simp add: renderAheadBehind_counts)
  then show "\<exists>b. render flag props = Inr b \<and> enabled b \<and> onClick b = Some this_pull
      \<and> icon b = arrowDown
      \<and> children b = Some (JSX_div ''ahead-behind''
          [JSX_span ''ahead'' (ahead ab) arrowSmallUp,
           JSX_span ''behind'' (behind ab) arrowSmallDown])"
    unfolding pull by (simp add: pullButton_def enabled_def)
next
  assume counts: "aheadBehind props = Some ab \<and> 0 < behind ab \<and> 0 < ahead ab"
  show "render flag props \<noteq> pushButton remote' ab' lf' h'"
  proof
    assume eq: "render flag props = pushButton remote' ab' lf' h'"
    obtain b where b: "pushButton remote' ab' lf' h' = Inr b" and up: "icon b = arrowUp"
      using pushButton_returns [of remote' ab' lf' h'] by blast
    from eq b have r: "render flag props = Inr b" by simp
    show False
    proof (cases props rule: render_cases)
      case (InProgress pr)
      with r up show False
        by (auto simp: render_progress progressButton_returns)
    next
      case PublishRepository
      with r up show False
        by (auto simp: render_no_remote publishRepositoryButton_def)
    next
      case (UnbornHead r')
      with r up show False
        by (auto simp: render_unborn unbornRepositoryButton_def)
    next
      case (DetachedHead r')
      with r up show False
        by (auto simp: render_detached detachedHeadButton_def)
    next
      case (PublishBranch r')
      with r up show False
        by (auto simp: render_no_upstream publishBranchButton_def)
    next
      case (Fetch r' ab'')
      then have "render flag props = fetchButton r' ab'' (lastFetched props) this_fetch"
        by (simp add: render_in_sync)
      with r have "icon b = sync" by (simp add: fetchButton_icon)
      with up show False by simp
    next
      case (Pull r' ab'')
      then have "render flag props =
          pullButton flag r' ab'' (lastFetched props) (pullWithRebase props = Some True) this_pull"
        by (simp add: render_behind)
      with r have "icon b = arrowDown" by (simp add: pullButton_icon)
      with up show False by simp
    next
      case (Push r' ab'')
      with counts show False by simp
    qed
  qed
qed

text \<open>The theorem at the diverged branch, two ahead and three behind.\<close>

theorem C2_behind_and_ahead_pulls_witness:
  "progress divergedProps = None \<and> remoteName divergedProps = Some ''origin''
   \<and> tipState divergedProps = Valid
   \<and> aheadBehind divergedProps = Some \<lparr> ahead = 2, behind = 3 \<rparr>
   \<and> render True divergedProps =
       pullButton True ''origin'' \<lparr> ahead = 2, behind = 3 \<rparr> None False this_pull
   \<and> (\<exists>b. render True divergedProps = Inr b \<and> enabled b \<and> onClick b = Some this_pull
         \<and> icon b = arrowDown
         \<and> children b = Some (JSX_div ''ahead-behind''
             [JSX_span ''ahead'' 2 arrowSmallUp, JSX_span ''behind'' 3 arrowSmallDown]))
   \<and> render True divergedProps \<noteq>
       pushButton ''origin'' \<lparr> ahead = 2, behind = 3 \<rparr> None this_push"
  using C2_behind_and_ahead_pulls [of divergedProps "''origin''"
      "\<lparr> ahead = 2, behind = 3 \<rparr>" True "''origin''" "\<lparr> ahead = 2, behind = 3 \<rparr>"
      None this_push]
  by (simp add: divergedProps_def pullButton_def pushButton_def renderAheadBehind_counts
      enabled_def)

text \<open>
  C2 as it is written holds for every input that is behind and ahead. It fails while an
  operation runs: the same diverged branch gets the disabled in-progress button, which
  has no click handler at all.
\<close>

theorem C2_any_status_counterexample:
  "aheadBehind (divergedProps\<lparr>progress := Some fetchingProgress,
      networkActionInProgress := True\<rparr>) = Some \<lparr> ahead = 2, behind = 3 \<rparr>
   \<and> render False (divergedProps\<lparr>progress := Some fetchingProgress,
        networkActionInProgress := True\<rparr>) =
       Inr \<lparr> title = ''Fetching origin'',
             description = Text (''Hang on'' @ [CHR 0xE2, CHR 0x80, CHR 0xA6]),
             progressValue = Some 0,
             className = ''push-pull-button'',
             icon = sync,
             iconClassName = Some ''spin'',
             style = Subtitle,
             tooltip = None,
             disabled = Some True,
             onClick = None,
             children = None \<rparr>
   \<and> render False (divergedProps\<lparr>progress := Some fetchingProgress,
        networkActionInProgress := True\<rparr>) \<noteq>
       pullButton False ''origin'' \<lparr> ahead = 2, behind = 3 \<rparr> None False this_pull"
  by (simp add: render_def progressButton_returns divergedProps_def fetchingProgress_def
      hangOn_def pullButton_def renderAheadBehind_counts)

subsection \<open>C3: a click handler exactly on the enabled buttons\<close>

text \<open>
  C3. The button that \<open>render\<close> returns has a click handler exactly when it is enabled.
  Builder by builder: the in-progress, unborn and detached buttons are disabled and have
  no handler; the publish-repository, publish-branch, fetch, pull and push buttons are
  enabled and carry the one handler they were given.
\<close>

theorem C3_handler_iff_enabled:
  "(\<exists>b. render flag props = Inr b \<and> (onClick b \<noteq> None) = enabled b)
   \<and> (\<exists>b. progressButton pr n abo = Inr b \<and> \<not> enabled b \<and> onClick b = None)
   \<and> (\<not> enabled unbornRepositoryButton \<and> onClick unbornRepositoryButton = None)
   \<and> (\<not> enabled (detachedHeadButton rb) \<and> onClick (detachedHeadButton rb) = None)
   \<and> (enabled (publishRepositoryButton h) \<and> onClick (publishRepositoryButton h) = Some h)
   \<and> (enabled (publishBranchButton g h) \<and> onClick (publishBranchButton g h) = Some h)
   \<and> (\<exists>b. fetchButton r ab lf h = Inr b \<and> enabled b \<and> onClick b = Some h)
   \<and> (\<exists>b. pullButton flag r ab lf w h = Inr b \<and> enabled b \<and> onClick b = Some h)
   \<and> (\<exists>b. pushButton r ab lf h = Inr b \<and> enabled b \<and> onClick b = Some h)"
proof -
  have inProgress: "\<exists>b. progressButton pr' n' abo' = Inr b \<and> \<not> enabled b \<and> onClick b = None"
    for pr' n' abo'
    by (simp add: progressButton_returns enabled_def)
  have unborn: "\<not> enabled unbornRepositoryButton \<and> onClick unbornRepositoryButton = None"
    by (simp add: unbornRepositoryButton_def enabled_def)
  have detached: "\<not> enabled (detachedHeadButton rb') \<and> onClick (detachedHeadButton rb') = None"
    for rb'
    by (simp add: detachedHeadButton_def enabled_def)
  have publishRepository:
    "enabled (publishRepositoryButton h') \<and> onClick (publishRepositoryButton h') = Some h'"
    for h'
    by (simp add: publishRepositoryButton_def enabled_def)
  have publishBranch:
    "enabled (publishBranchButton g' h') \<and> onClick (publishBranchButton g' h') = Some h'"
    for g' h'
    by (simp add: publishBranchButton_def enabled_def)
  have fetch: "\<exists>b. fetchButton r' ab' lf' h' = Inr b \<and> enabled b \<and> onClick b = Some h'"
    for r' ab' lf' h'
    using fetchButton_returns [of r' ab' lf' h'] by (auto simp: enabled_def)
  have pull: "\<exists>b. pullButton flag r' ab' lf' w' h' = Inr b \<and> enabled b \<and> onClick b = Some h'"
    for r' ab' lf' w' h'
    using pullButton_returns [of flag r' ab' lf' w' h'] by (auto simp: enabled_def)
  have push: "\<exists>b. pushButton r' ab' lf' h' = Inr b \<and> enabled b \<and> onClick b = Some h'"
    for r' ab' lf' h'
    using pushButton_returns [of r' ab' lf' h'] by (auto simp: enabled_def)
  have main: "\<exists>b. render flag props = Inr b \<and> (onClick b \<noteq> None) = enabled b"
  proof (cases props rule: render_cases)
    case (InProgress pr')
    then show ?thesis
      using inProgress [of pr' "networkActionInProgress props" "aheadBehind props"]
      by (auto simp: render_progress)
  next
    case PublishRepository
    then show ?thesis using publishRepository [of this_push]
      by (simp add: render_no_remote)
  next
    case (UnbornHead r')
    then show ?thesis using unborn by (simp add: render_unborn)
  next
    case (DetachedHead r')
    then show ?thesis using detached [of "rebaseInProgress props"]
      by (simp add: render_detached)
  next
    case (PublishBranch r')
    then show ?thesis
      using publishBranch [of "gitHubRepository (repository props) \<noteq> None" this_push]
      by (simp add: render_no_upstream)
  next
    case (Fetch r' ab')
    then show ?thesis using fetch [of r' ab' "lastFetched props" this_fetch]
      by (auto simp: render_in_sync)
  next
    case (Pull r' ab')
    then show ?thesis
      using pull [of r' ab' "lastFetched props" "pullWithRebase props = Some True" this_pull]
      by (auto simp: render_behind)
  next
    case (Push r' ab')
    then show ?thesis using push [of r' ab' "lastFetched props" this_push]
      by (auto simp: render_otherwise)
  qed
  from main inProgress [of pr n abo] unborn detached [of rb] publishRepository [of h]
    publishBranch [of g h] fetch [of r ab lf h] pull [of r ab lf w h] push [of r ab lf h]
  show ?thesis by (intro conjI) blast+
qed

text \<open>The theorem at the diverged branch and at one call of every builder.\<close>

theorem C3_handler_iff_enabled_witness:
  "(\<exists>b. render False divergedProps = Inr b \<and> (onClick b \<noteq> None) = enabled b)
   \<and> (\<exists>b. progressButton pushingProgress True None = Inr b \<and> \<not> enabled b \<and> onClick b = None)
   \<and> \<not> enabled unbornRepositoryButton \<and> onClick unbornRepositoryButton = None
   \<and> \<not> enabled (detachedHeadButton True) \<and> onClick (detachedHeadButton True) = None
   \<and> enabled (publishRepositoryButton this_push)
   \<and> onClick (publishRepositoryButton this_push) = Some this_push
   \<and> enabled (publishBranchButton True this_push)
   \<and> onClick (publishBranchButton True this_push) = Some this_push
   \<and> (\<exists>b. fetchButton ''origin'' \<lparr> ahead = 0, behind = 0 \<rparr> None this_push = Inr b
         \<and> enabled b \<and> onClick b = Some this_push)
   \<and> (\<exists>b. pullButton False ''origin'' \<lparr> ahead = 0, behind = 0 \<rparr> None False this_push = Inr b
         \<and> enabled b \<and> onClick b = Some this_push)
   \<and> (\<exists>b. pushButton ''origin'' \<lparr> ahead = 0, behind = 0 \<rparr> None this_push = Inr b
         \<and> enabled b \<and> onClick b = Some this_push)"
  using C3_handler_iff_enabled [of False divergedProps pushingProgress True None True
      this_push True "''origin''" "\<lparr> ahead = 0, behind = 0 \<rparr>" None False]
  by simp

subsection \<open>C4: the ahead/behind badge\<close>

text \<open>
  C4. The button that \<open>render\<close> returns has a badge only when no operation is running,
  the ahead/behind pair is present and its counts are not both zero. The helper
  \<open>renderAheadBehind\<close> returns no badge when an operation is running or the pair is
  absent; otherwise it returns no badge exactly when both counts are zero, and a badge
  that holds the ahead entry exactly when \<open>ahead > 0\<close>, the behind entry exactly when
  \<open>behind > 0\<close>, and nothing else.
\<close>

theorem C4_badge:
  "(\<forall>b. render flag props = Inr b \<and> children b \<noteq> None \<longrightarrow>
       progress props = None \<and>
       (\<exists>ab. aheadBehind props = Some ab \<and> \<not> (ahead ab = 0 \<and> behind ab = 0)))
   \<and> (\<exists>badge. renderAheadBehind pr abo = Inr badge
        \<and> (pr \<noteq> None \<or> abo = None \<longrightarrow> badge = None)
        \<and> (\<forall>ab. pr = None \<and> abo = Some ab \<longrightarrow>
              (badge = None) = (ahead ab = 0 \<and> behind ab = 0)
            \<and> (\<forall>c xs. badge = Some (JSX_div c xs) \<longrightarrow>
                  (JSX_span ''ahead'' (ahead ab) arrowSmallUp \<in> set xs) = (0 < ahead ab)
                \<and> (JSX_span ''behind'' (behind ab) arrowSmallDown \<in> set xs) = (0 < behind ab)
                \<and> (\<forall>x \<in> set xs. x = JSX_span ''ahead'' (ahead ab) arrowSmallUp
                                  \<or> x = JSX_span ''behind'' (behind ab) arrowSmallDown)
                \<and> distinct xs)))"
proof -
  have onlyWhen: "progress props = None \<and>
      (\<exists>ab. aheadBehind props = Some ab \<and> \<not> (ahead ab = 0 \<and> behind ab = 0))"
    if r: "render flag props = Inr b" and badge: "children b \<noteq> None" for b
  proof (cases props rule: render_cases)
    case (InProgress pr')
    with r badge show ?thesis by (auto simp: render_progress progressButton_returns)
  next
    case PublishRepository
    with r badge show ?thesis by (auto simp: render_no_remote publishRepositoryButton_def)
  next
    case (UnbornHead r')
    with r badge show ?thesis by (auto simp: render_unborn unbornRepositoryButton_def)
  next
    case (DetachedHead r')
    with r badge show ?thesis by (auto simp: render_detached detachedHeadButton_def)
  next
    case (PublishBranch r')
    with r badge show ?thesis by (auto simp: render_no_upstream publishBranchButton_def)
  next
    case (Fetch r' ab')
    with r badge show ?thesis
      by (auto simp: render_in_sync fetchButton_def renderAheadBehind_counts)
  next
    case (Pull r' ab')
    then show ?thesis by auto
  next
    case (Push r' ab')
    then show ?thesis by auto
  qed
  have helper: "\<exists>badge. renderAheadBehind pr abo = Inr badge
      \<and> (pr \<noteq> None \<or> abo = None \<longrightarrow> badge = None)
      \<and> (\<forall>ab. pr = None \<and> abo = Some ab \<longrightarrow>
            (badge = None) = (ahead ab = 0 \<and> behind ab = 0)
          \<and> (\<forall>c xs. badge = Some (JSX_div c xs) \<longrightarrow>
                (JSX_span ''ahead'' (ahead ab) arrowSmallUp \<in> set xs) = (0 < ahead ab)
              \<and> (JSX_span ''behind'' (behind ab) arrowSmallDown \<in> set xs) = (0 < behind ab)
              \<and> (\<forall>x \<in> set xs. x = JSX_span ''ahead'' (ahead ab) arrowSmallUp
                                \<or> x = JSX_span ''behind'' (behind ab) arrowSmallDown)
              \<and> distinct xs))"
  proof (cases "pr \<noteq> None \<or> abo = None")
    case True
    then have "renderAheadBehind pr abo = Inr None" by (rule renderAheadBehind_suppressed)
    with True show ?thesis by auto
  next
    case False
    then obtain ab where "pr = None" and "abo = Some ab" by auto
    then show ?thesis by (auto simp: renderAheadBehind_counts)
  qed
  show ?thesis
    by (rule conjI) (use onlyWhen in blast, rule helper)
qed

text \<open>
  The theorem at the diverged branch, whose badge has both entries, and at a pair that is
  four ahead and not behind, whose badge has the ahead entry alone.
\<close>

theorem C4_badge_witness:
  "(\<exists>b. render False divergedProps = Inr b
        \<and> children b = Some (JSX_div ''ahead-behind''
            [JSX_span ''ahead'' 2 arrowSmallUp, JSX_span ''behind'' 3 arrowSmallDown]))
   \<and> progress divergedProps = None
   \<and> aheadBehind divergedProps = Some \<lparr> ahead = 2, behind = 3 \<rparr>
   \<and> renderAheadBehind None (Some \<lparr> ahead = 4, behind = 0 \<rparr>) =
       Inr (Some (JSX_div ''ahead-behind'' [JSX_span ''ahead'' 4 arrowSmallUp]))"
  using C4_badge [of False divergedProps None "Some \<lparr> ahead = 4, behind = 0 \<rparr>"]
  by (simp add: divergedProps_def render_def pullButton_def renderAheadBehind_counts)

subsection \<open>C5: an unborn tip\<close>

text \<open>
  C5, as amended. When nothing is running and the repository has a remote, an unborn tip
  gets the disabled publish-branch button with no click handler, whatever the ahead/behind
  pair and the remaining props are.
\<close>

theorem C5_unborn_disabled:
  assumes "progress props = None" and "remoteName props = Some remote"
    and "tipState props = Unborn"
  shows "render flag props = Inr unbornRepositoryButton
    \<and> \<not> enabled unbornRepositoryButton
    \<and> onClick unbornRepositoryButton = None
    \<and> ToolbarButton.title unbornRepositoryButton = ''Publish branch''
    \<and> ToolbarButton.description unbornRepositoryButton = Text ''Cannot publish unborn HEAD''"
proof -
  from assms have "render flag props = Inr unbornRepositoryButton"
    by (rule render_unborn)
  then show ?thesis
    by (simp add: unbornRepositoryButton_def enabled_def)
qed

text \<open>The theorem at an unborn tip that still carries the counts two and three.\<close>

theorem C5_unborn_disabled_witness:
  "progress (divergedProps\<lparr>tipState := Unborn\<rparr>) = None
   \<and> remoteName (divergedProps\<lparr>tipState := Unborn\<rparr>) = Some ''origin''
   \<and> tipState (divergedProps\<lparr>tipState := Unborn\<rparr>) = Unborn
   \<and> aheadBehind (divergedProps\<lparr>tipState := Unborn\<rparr>) = Some \<lparr> ahead = 2, behind = 3 \<rparr>
   \<and> render True (divergedProps\<lparr>tipState := Unborn\<rparr>) = Inr unbornRepositoryButton
   \<and> \<not> enabled unbornRepositoryButton
   \<and> onClick unbornRepositoryButton = None"
  using C5_unborn_disabled [of "divergedProps\<lparr>tipState := Unborn\<rparr>" "''origin''" True]
  by (simp add: divergedProps_def)

text \<open>
  C5 as it is written holds for every input with an unborn tip. It fails for a
  repository that has no remote yet: the remote is tested before the tip, and the button
  is the enabled publish-repository button, bound to \<open>this.push\<close>.
\<close>

theorem C5_no_remote_counterexample:
  "tipState (divergedProps\<lparr>remoteName := None, aheadBehind := None, tipState := Unborn\<rparr>)
     = Unborn
   \<and> render False (divergedProps\<lparr>remoteName := None, aheadBehind := None,
        tipState := Unborn\<rparr>) =
       Inr \<lparr> title = ''Publish repository'',
             description = Text ''Publish this repository to GitHub'',
             progressValue = None,
             className = ''push-pull-button'',
             icon = cloudUpload,
             iconClassName = None,
             style = Subtitle,
             tooltip = None,
             disabled = None,
             onClick = Some this_push,
             children = None \<rparr>
   \<and> render False (divergedProps\<lparr>remoteName := None, aheadBehind := None,
        tipState := Unborn\<rparr>) \<noteq> Inr unbornRepositoryButton"
  by (simp add: render_def divergedProps_def publishRepositoryButton_def
      unbornRepositoryButton_def)

subsection \<open>C6: a repository without a remote\<close>

text \<open>
  C6. When nothing is running and the repository has no remote, \<open>render\<close> returns the
  publish-repository button, enabled and bound to \<open>this.push\<close>, whatever the tip state
  and the ahead/behind pair are.
\<close>

theorem C6_no_remote_publishes:
  assumes "progress props = None" and "remoteName props = None"
  shows "render flag props = Inr (publishRepositoryButton this_push)
    \<and> enabled (publishRepositoryButton this_push)
    \<and> onClick (publishRepositoryButton this_push) = Some this_push
    \<and> ToolbarButton.title (publishRepositoryButton this_push) = ''Publish repository''"
proof -
  from assms have "render flag props = Inr (publishRepositoryButton this_push)"
    by (rule render_no_remote)
  then show ?thesis
    by (simp add: publishRepositoryButton_def enabled_def)
qed

text \<open>The theorem at a detached tip with counts and no remote.\<close>

theorem C6_no_remote_publishes_witness:
  "progress (divergedProps\<lparr>remoteName := None, tipState := Detached\<rparr>) = None
   \<and> remoteName (divergedProps\<lparr>remoteName := None, tipState := Detached\<rparr>) = None
   \<and> render False (divergedProps\<lparr>remoteName := None, tipState := Detached\<rparr>) =
       Inr (publishRepositoryButton this_push)
   \<and> enabled (publishRepositoryButton this_push)
   \<and> onClick (publishRepositoryButton this_push) = Some this_push"
  using C6_no_remote_publishes
    [of "divergedProps\<lparr>remoteName := None, tipState := Detached\<rparr>" False]
  by (simp add: divergedProps_def)

subsection \<open>C7: the title of the pull button\<close>

text \<open>
  C7. On the row that returns the pull button (nothing running, a remote, a tip neither
  unborn nor detached, counts present, not both zero, \<open>behind > 0\<close>) the title is
  \<open>Pull <remote> with rebase\<close> exactly when the \<open>pullWithRebase\<close> prop is true and the
  feature flag is on, and \<open>Pull <remote>\<close> otherwise.
\<close>

theorem C7_pull_title:
  assumes "progress props = None" and "remoteName props = Some remote"
    and "tipState props \<noteq> Unborn" and "tipState props \<noteq> Detached"
    and "aheadBehind props = Some ab" and "0 < behind ab"
  shows "render flag props =
      pullButton flag remote ab (lastFetched props) (pullWithRebase props = Some True) this_pull
    \<and> (\<exists>b. render flag props = Inr b
         \<and> ToolbarButton.title b =
             (if pullWithRebase props = Some True \<and> flag
              then ''Pull '' @ remote @ '' with rebase'' else ''Pull '' @ remote)
         \<and> (ToolbarButton.title b = ''Pull '' @ remote @ '' with rebase'')
             = (pullWithRebase props = Some True \<and> flag)
         \<and> (ToolbarButton.title b = ''Pull '' @ remote)
             = (\<not> (pullWithRebase props = Some True \<and> flag)))"
proof -
  from assms have row: "render flag props =
      pullButton flag remote ab (lastFetched props) (pullWithRebase props = Some True) this_pull"
    by (rule render_behind)
  obtain b where b: "pullButton flag remote ab (lastFetched props)
        (pullWithRebase props = Some True) this_pull = Inr b"
    and title: "ToolbarButton.title b =
        (if pullWithRebase props = Some True \<and> flag
         then ''Pull '' @ remote @ '' with rebase'' else ''Pull '' @ remote)"
    using pullButton_returns [of flag remote ab "lastFetched props"
        "pullWithRebase props = Some True" this_pull]
    by blast
  from title have
    "(ToolbarButton.title b = ''Pull '' @ remote @ '' with rebase'')
       = (pullWithRebase props = Some True \<and> flag)"
    "(ToolbarButton.title b = ''Pull '' @ remote)
       = (\<not> (pullWithRebase props = Some True \<and> flag))"
    using rebase_title_differs [of remote] by auto
  with row b title show ?thesis by simp
qed

text \<open>The theorem at the diverged branch with the preference set and the flag on.\<close>

theorem C7_pull_title_witness:
  "progress (divergedProps\<lparr>pullWithRebase := Some True\<rparr>) = None
   \<and> remoteName (divergedProps\<lparr>pullWithRebase := Some True\<rparr>) = Some ''origin''
   \<and> tipState (divergedProps\<lparr>pullWithRebase := Some True\<rparr>) = Valid
   \<and> aheadBehind (divergedProps\<lparr>pullWithRebase := Some True\<rparr>)
       = Some \<lparr> ahead = 2, behind = 3 \<rparr>
   \<and> (\<exists>b. render True (divergedProps\<lparr>pullWithRebase := Some True\<rparr>) = Inr b
         \<and> ToolbarButton.title b = ''Pull origin with rebase'')
   \<and> (\<exists>b. render False (divergedProps\<lparr>pullWithRebase := Some True\<rparr>) = Inr b
         \<and> ToolbarButton.title b = ''Pull origin'')"
  using
    C7_pull_title [of "divergedProps\<lparr>pullWithRebase := Some True\<rparr>" "''origin''"
      "\<lparr> ahead = 2, behind = 3 \<rparr>" True]
    C7_pull_title [of "divergedProps\<lparr>pullWithRebase := Some True\<rparr>" "''origin''"
      "\<lparr> ahead = 2, behind = 3 \<rparr>" False]
  by (simp add: divergedProps_def pullButton_def renderAheadBehind_counts)

subsection \<open>C8: render always returns, and the status decides what\<close>

text \<open>
  C8. \<open>render\<close> returns a button for every value of the props and of the feature flag:
  no read through a null value is ever reached, in \<open>render\<close>, in \<open>renderAheadBehind\<close>
  or in a builder. And the button is decided by the status and the flag: two props that
  carry the same status give the same button under the same flag, also when their
  repository objects differ.
\<close>

theorem C8_render_total:
  "(\<exists>b. render flag props = Inr b)
   \<and> (\<exists>badge. renderAheadBehind pr abo = Inr badge)
   \<and> (\<exists>b. progressButton p n abo = Inr b)
   \<and> (\<exists>b. fetchButton r ab lf h = Inr b)
   \<and> (\<exists>b. pullButton flag r ab lf w h = Inr b)
   \<and> (\<exists>b. pushButton r ab lf h = Inr b)
   \<and> (flag' = flag \<and> syncStatus props' = syncStatus props
        \<longrightarrow> render flag' props' = render flag props)"
proof -
  have helper: "\<exists>badge. renderAheadBehind pr abo = Inr badge"
  proof (cases "pr \<noteq> None \<or> abo = None")
    case True
    then show ?thesis by (simp add: renderAheadBehind_suppressed)
  next
    case False
    then obtain ab' where "pr = None" and "abo = Some ab'" by auto
    then show ?thesis by (simp add: renderAheadBehind_counts)
  qed
  have fetch: "\<exists>b. fetchButton r' ab' lf' h' = Inr b" for r' ab' lf' h'
    using fetchButton_returns [of r' ab' lf' h'] by blast
  have pull: "\<exists>b. pullButton flag r' ab' lf' w' h' = Inr b" for r' ab' lf' w' h'
    using pullButton_returns [of flag r' ab' lf' w' h'] by blast
  have push: "\<exists>b. pushButton r' ab' lf' h' = Inr b" for r' ab' lf' h'
    using pushButton_returns [of r' ab' lf' h'] by blast
  have inProgress: "\<exists>b. progressButton p' n' abo' = Inr b" for p' n' abo'
    by (simp add: progressButton_returns)
  have main: "\<exists>b. render flag props = Inr b"
  proof (cases props rule: render_cases)
    case (InProgress pr')
    then show ?thesis
      using inProgress [of pr' "networkActionInProgress props" "aheadBehind props"]
      by (simp add: render_progress)
  next
    case PublishRepository
    then show ?thesis by (simp add: render_no_remote)
  next
    case (UnbornHead r')
    then show ?thesis by (simp add: render_unborn)
  next
    case (DetachedHead r')
    then show ?thesis by (simp add: render_detached)
  next
    case (PublishBranch r')
    then show ?thesis by (simp add: render_no_upstream)
  next
    case (Fetch r' ab')
    then show ?thesis using fetch [of r' ab' "lastFetched props" this_fetch]
      by (simp add: render_in_sync)
  next
    case (Pull r' ab')
    then show ?thesis
      using pull [of r' ab' "lastFetched props" "pullWithRebase props = Some True" this_pull]
      by (simp add: render_behind)
  next
    case (Push r' ab')
    then show ?thesis using push [of r' ab' "lastFetched props" this_push]
      by (simp add: render_otherwise)
  qed
  have same: "render flag' props' = render flag props"
    if "flag' = flag \<and> syncStatus props' = syncStatus props"
  proof -
    from that have fields:
      "aheadBehind props' = aheadBehind props" "remoteName props' = remoteName props"
      "tipState props' = tipState props" "rebaseInProgress props' = rebaseInProgress props"
      "pullWithRebase props' = pullWithRebase props"
      "networkActionInProgress props' = networkActionInProgress props"
      "lastFetched props' = lastFetched props" "progress props' = progress props"
      and hosted: "(gitHubRepository (repository props') \<noteq> None)
        = (gitHubRepository (repository props) \<noteq> None)"
      and flags: "flag' = flag"
      by (simp_all add: syncStatus_def)
    from hosted have "publishBranchButton (gitHubRepository (repository props') \<noteq> None) this_push
        = publishBranchButton (gitHubRepository (repository props) \<noteq> None) this_push"
      by (rule arg_cong)
    with fields flags show ?thesis
      unfolding render_def by (simp only:)
  qed
  from main helper inProgress [of p n abo] fetch [of r ab lf h] pull [of r ab lf w h]
    push [of r ab lf h] same
  show ?thesis by simp
qed

text \<open>
  The theorem at the diverged branch, whose row reads both nullable props that it
  narrows, and at two props without an upstream that are hosted as two different
  repositories: the row that reads the repository gives both the same button.
\<close>

theorem C8_render_total_witness:
  "(\<exists>b. render True divergedProps = Inr b)
   \<and> (\<exists>badge. renderAheadBehind None (Some \<lparr> ahead = 2, behind = 3 \<rparr>) = Inr badge)
   \<and> (\<exists>b. progressButton fetchingProgress True (Some \<lparr> ahead = 2, behind = 3 \<rparr>) = Inr b)
   \<and> (\<exists>b. fetchButton ''origin'' \<lparr> ahead = 2, behind = 3 \<rparr> None this_fetch = Inr b)
   \<and> (\<exists>b. pullButton True ''origin'' \<lparr> ahead = 2, behind = 3 \<rparr> None True this_fetch = Inr b)
   \<and> (\<exists>b. pushButton ''origin'' \<lparr> ahead = 2, behind = 3 \<rparr> None this_fetch = Inr b)
   \<and> divergedProps\<lparr>aheadBehind := None,
        repository := \<lparr> gitHubRepository = Some (GitHubRepository ''desktop'') \<rparr>\<rparr>
       \<noteq> divergedProps\<lparr>aheadBehind := None,
        repository := \<lparr> gitHubRepository = Some (GitHubRepository ''mirror'') \<rparr>\<rparr>
   \<and> syncStatus (divergedProps\<lparr>aheadBehind := None,
        repository := \<lparr> gitHubRepository = Some (GitHubRepository ''desktop'') \<rparr>\<rparr>)
       = syncStatus (divergedProps\<lparr>aheadBehind := None,
        repository := \<lparr> gitHubRepository = Some (GitHubRepository ''mirror'') \<rparr>\<rparr>)
   \<and> render True (divergedProps\<lparr>aheadBehind := None,
        repository := \<lparr> gitHubRepository = Some (GitHubRepository ''desktop'') \<rparr>\<rparr>)
       = render True (divergedProps\<lparr>aheadBehind := None,
        repository := \<lparr> gitHubRepository = Some (GitHubRepository ''mirror'') \<rparr>\<rparr>)
   \<and> render True (divergedProps\<lparr>aheadBehind := None,
        repository := \<lparr> gitHubRepository = Some (GitHubRepository ''mirror'') \<rparr>\<rparr>)
       = Inr (publishBranchButton True this_push)"
  using
    C8_render_total [of True divergedProps None "Some \<lparr> ahead = 2, behind = 3 \<rparr>"
      fetchingProgress True "''origin''" "\<lparr> ahead = 2, behind = 3 \<rparr>" None this_fetch True]
    C8_render_total [where flag = True and flag' = True
      and props = "divergedProps\<lparr>aheadBehind := None,
        repository := \<lparr> gitHubRepository = Some (GitHubRepository ''mirror'') \<rparr>\<rparr>"
      and props' = "divergedProps\<lparr>aheadBehind := None,
        repository := \<lparr> gitHubRepository = Some (GitHubRepository ''desktop'') \<rparr>\<rparr>"]
  by (simp add: divergedProps_def syncStatus_def render_def)

subsection \<open>C9: an omitted rebase preference\<close>

text \<open>
  C9. \<open>render\<close> returns the same for an omitted \<open>pullWithRebase\<close> as for \<open>false\<close>. On the
  row of the pull button the title is then the plain \<open>Pull <remote>\<close>, also with the
  feature flag on.
\<close>

theorem C9_omitted_preference:
  "render flag (props\<lparr>pullWithRebase := None\<rparr>) =
     render flag (props\<lparr>pullWithRebase := Some False\<rparr>)
   \<and> (progress props = None \<and> remoteName props = Some remote
        \<and> tipState props \<noteq> Unborn \<and> tipState props \<noteq> Detached
        \<and> aheadBehind props = Some ab \<and> 0 < behind ab \<and> pullWithRebase props = None
      \<longrightarrow> (\<exists>b. render True props = Inr b \<and> ToolbarButton.title b = ''Pull '' @ remote))"
proof (rule conjI)
  show "render flag (props\<lparr>pullWithRebase := None\<rparr>) =
      render flag (props\<lparr>pullWithRebase := Some False\<rparr>)"
    by (auto simp: render_def split: option.splits)
next
  show "progress props = None \<and> remoteName props = Some remote
        \<and> tipState props \<noteq> Unborn \<and> tipState props \<noteq> Detached
        \<and> aheadBehind props = Some ab \<and> 0 < behind ab \<and> pullWithRebase props = None
      \<longrightarrow> (\<exists>b. render True props = Inr b \<and> ToolbarButton.title b = ''Pull '' @ remote)"
  proof
    assume path: "progress props = None \<and> remoteName props = Some remote
        \<and> tipState props \<noteq> Unborn \<and> tipState props \<noteq> Detached
        \<and> aheadBehind props = Some ab \<and> 0 < behind ab \<and> pullWithRebase props = None"
    then have "render True props =
        pullButton True remote ab (lastFetched props) False this_pull"
      by (simp add: render_behind)
    then show "\<exists>b. render True props = Inr b \<and> ToolbarButton.title b = ''Pull '' @ remote"
      using pullButton_returns [of True remote ab "lastFetched props" False this_pull]
      by auto
  qed
qed

text \<open>The theorem at the diverged branch, whose preference is omitted.\<close>

theorem C9_omitted_preference_witness:
  "pullWithRebase divergedProps = None
   \<and> render True (divergedProps\<lparr>pullWithRebase := None\<rparr>) =
       render True (divergedProps\<lparr>pullWithRebase := Some False\<rparr>)
   \<and> (\<exists>b. render True divergedProps = Inr b \<and> ToolbarButton.title b = ''Pull origin'')"
  using C9_omitted_preference [of True divergedProps "''origin''"
      "\<lparr> ahead = 2, behind = 3 \<rparr>"]
  by (simp add: divergedProps_def render_def pullButton_def renderAheadBehind_counts)

subsection \<open>C10: the date of the last fetch\<close>

text \<open>
  C10. Replacing \<open>lastFetched\<close> by any other value changes nothing in the returned button
  but its description: title, icon, enabled state, click handler and badge stay. On the
  five rows that are not fetch, pull or push the button stays the same altogether; on
  those three the description is the text made from the new date.
\<close>

theorem C10_lastFetched_only_description:
  "\<exists>b b'. render flag props = Inr b \<and> render flag (props\<lparr>lastFetched := lf\<rparr>) = Inr b'
     \<and> b' = b\<lparr>description := ToolbarButton.description b'\<rparr>
     \<and> enabled b' = enabled b \<and> onClick b' = onClick b \<and> children b' = children b
     \<and> ToolbarButton.title b' = ToolbarButton.title b \<and> icon b' = icon b
     \<and> (progress props \<noteq> None \<or> remoteName props = None \<or> tipState props = Unborn
          \<or> tipState props = Detached \<or> aheadBehind props = None \<longrightarrow> b' = b)
     \<and> (progress props = None \<and> remoteName props \<noteq> None \<and> tipState props \<noteq> Unborn
          \<and> tipState props \<noteq> Detached \<and> aheadBehind props \<noteq> None
        \<longrightarrow> ToolbarButton.description b = renderLastFetched (lastFetched props)
          \<and> ToolbarButton.description b' = renderLastFetched lf)"
proof (cases props rule: render_cases)
  case (InProgress pr)
  then show ?thesis
    by (simp add: render_progress progressButton_returns)
next
  case PublishRepository
  then show ?thesis by (simp add: render_no_remote)
next
  case (UnbornHead r)
  then show ?thesis by (simp add: render_unborn)
next
  case (DetachedHead r)
  then show ?thesis by (simp add: render_detached)
next
  case (PublishBranch r)
  then show ?thesis by (simp add: render_no_upstream)
next
  case (Fetch r ab)
  then show ?thesis
    by (simp add: render_in_sync fetchButton_def renderAheadBehind_counts enabled_def)
next
  case (Pull r ab)
  then show ?thesis
    by (simp add: render_behind pullButton_def renderAheadBehind_counts enabled_def)
next
  case (Push r ab)
  then show ?thesis
    by (simp add: render_otherwise pushButton_def renderAheadBehind_counts enabled_def)
qed

text \<open>
  The theorem at the diverged branch, never fetched, against the same branch fetched at
  some date: both give the pull button, with descriptions that differ.
\<close>

theorem C10_lastFetched_only_description_witness:
  "\<exists>b b'. render False divergedProps = Inr b
     \<and> render False (divergedProps\<lparr>lastFetched := Some 1700000000000\<rparr>) = Inr b'
     \<and> b' = b\<lparr>description := ToolbarButton.description b'\<rparr>
     \<and> enabled b' = enabled b \<and> onClick b' = onClick b \<and> children b' = children b
     \<and> ToolbarButton.title b' = ToolbarButton.title b \<and> icon b' = icon b
     \<and> ToolbarButton.description b = Text ''Never fetched''
     \<and> ToolbarButton.description b' = LastFetched 1700000000000"
  using C10_lastFetched_only_description [of False divergedProps "Some 1700000000000"]
  by (simp add: divergedProps_def renderLastFetched_def)

end
